theory Spec2Isabelle
  imports Complex_Main "HOL-Library.Sublist"
begin

section \<open>Values shared by the models\<close>

text \<open>
  A \<^verbatim>\<open>Decimal\<close> is identified with the rational number it denotes: every field of
  the models has a fixed scale, and sums and products of such values are exact in
  Python's decimal arithmetic as long as they fit the columns that hold them.
  A \<^verbatim>\<open>datetime\<close> is a point on an integer time line, a primary key (a UUID) is a
  natural number. \<^verbatim>\<open>timezone.now()\<close> is the parameter \<open>now\<close> of every function that
  reads the clock; a fresh UUID is the parameter \<open>new_id\<close>.
\<close>

type_synonym decimal = rat
type_synonym datetime = int
type_synonym date = int
type_synonym uuid = nat

text \<open>
  Python's truth value of an optional \<^verbatim>\<open>Decimal\<close>: \<^verbatim>\<open>None\<close> and \<^verbatim>\<open>Decimal('0')\<close>
  are both false.
\<close>

definition truthy :: "decimal option \<Rightarrow> bool" where
  "truthy v = (case v of None \<Rightarrow> False | Some d \<Rightarrow> d \<noteq> 0)"

text \<open>
  Exceptions. \<open>ValidationError\<close> is \<^verbatim>\<open>django.core.exceptions.ValidationError\<close> with its
  message, \<open>SerializerValidationError\<close> is \<^verbatim>\<open>rest_framework.serializers.ValidationError\<close>
  with its field-to-message dictionary, \<open>DatabaseError\<close> is \<^verbatim>\<open>django.db.DatabaseError\<close>,
  and \<open>OtherException module message\<close> is any other exception, with the module of its
  class.
\<close>

datatype exn =
    ValidationError string
  | SerializerValidationError "(string \<times> string) list"
  | DatabaseError string
  | ValueError string
  | OtherException string string

text \<open>
  The authenticated user of a request (the user model is not part of this repository;
  only these attributes are read), and a request: its user and its parsed payload
  (\<^verbatim>\<open>request.data\<close> or \<^verbatim>\<open>request.query_params\<close>).
\<close>

record User =
  id' :: uuid
  username :: string
  is_staff :: bool
  is_active :: bool

record 'd Request =
  user :: User
  data :: 'd

section \<open>core/models.py\<close>

record BaseModel =
  id' :: uuid
  created_at :: datetime
  updated_at :: datetime
  is_active :: bool

text \<open>
  \<^verbatim>\<open>Model.save\<close> of the framework, on a table held as the list of its rows. With
  \<^verbatim>\<open>force_insert\<close> (as \<^verbatim>\<open>objects.create\<close> calls it) the row is inserted and a duplicate
  primary key raises \<^verbatim>\<open>IntegrityError\<close>; otherwise the row with this primary key is
  replaced, or the row is inserted when there is none. The columns \<open>created_at\<close>
  (\<^verbatim>\<open>auto_now_add\<close>) and \<open>updated_at\<close> (\<^verbatim>\<open>auto_now\<close>) are set from the clock.
  \<open>fault\<close> is the exception the database raises on this write, if it raises one.
\<close>

definition Model_save ::
  "bool \<Rightarrow> exn option \<Rightarrow> datetime \<Rightarrow> 'a BaseModel_scheme \<Rightarrow> 'a BaseModel_scheme list
     \<Rightarrow> exn + 'a BaseModel_scheme \<times> 'a BaseModel_scheme list" where
  "Model_save force_insert fault now self db =
     (case fault of
        Some e \<Rightarrow> Inl e
      | None \<Rightarrow>
          if list_ex (\<lambda>row. BaseModel.id' row = BaseModel.id' self) db
          then (if force_insert
                then Inl (OtherException ''django.db.utils'' ''IntegrityError'')
                else (let s = self\<lparr>updated_at := now\<rparr>
                      in Inr (s, map (\<lambda>row. if BaseModel.id' row = BaseModel.id' self then s else row) db)))
          else (let s = self\<lparr>created_at := now, updated_at := now\<rparr>
                in Inr (s, db @ [s])))"

section \<open>assets/models.py: AssetCategory\<close>

record AssetCategory = BaseModel +
  name :: string
  description :: string
  parent :: "uuid option"
  icon :: string
  color :: string

text \<open>
  \<^verbatim>\<open>AssetCategory.clean\<close>. Two model instances are equal when their primary keys are;
  \<^verbatim>\<open>self.parent\<close> is the category the foreign key \<open>parent\<close> points to.
\<close>

definition AssetCategory_clean :: "AssetCategory \<Rightarrow> exn + unit" where
  "AssetCategory_clean self =
     (if parent self = Some (BaseModel.id' self)
      then Inl (ValidationError ''Category cannot be its own parent'')
      else Inr ())"

section \<open>assets/models.py: Asset\<close>

record Asset = BaseModel +
  name :: string
  symbol :: string
  asset_type :: string
  category :: "uuid option"
  description :: string
  company_name :: string
  website_url :: string
  current_price :: decimal
  currency :: string
  market_cap :: "decimal option"
  risk_level :: string
  beta :: "decimal option"
  dividend_yield :: "decimal option"
  status :: string
  exchange :: string
  isin :: "string option"
  price_last_updated :: "datetime option"
  day_high :: "decimal option"
  day_low :: "decimal option"

text \<open>
  \<^verbatim>\<open>Asset.clean\<close>. The guards \<^verbatim>\<open>self.day_high and self.day_low\<close> and \<^verbatim>\<open>self.isin\<close> are
  Python truth values: a zero price and an empty string count as false.
\<close>

definition Asset_clean :: "Asset \<Rightarrow> exn + unit" where
  "Asset_clean self =
     (if truthy (day_high self) \<and> truthy (day_low self)
         \<and> (case (day_high self, day_low self) of
               (Some h, Some l) \<Rightarrow> h < l
             | _ \<Rightarrow> False)
      then Inl (ValidationError ''Day high cannot be less than day low'')
      else if (case isin self of None \<Rightarrow> False | Some s \<Rightarrow> s \<noteq> [] \<and> length s \<noteq> 12)
      then Inl (ValidationError ''ISIN must be exactly 12 characters'')
      else Inr ())"





section \<open>assets/models.py: Transaction\<close>

text \<open>
  The dictionary a transaction serializer works on (\<^verbatim>\<open>data\<close>, \<^verbatim>\<open>validated_data\<close>): every
  key may be absent. The values are the parsed ones: a related object is its primary key,
  a choice is its string. An explicit \<^verbatim>\<open>null\<close> and an absent key both read as \<open>None\<close>, as
  \<^verbatim>\<open>dict.get\<close> returns for both.
\<close>

record TransactionData =
  user :: "uuid option"
  user_id :: "uuid option"
  asset :: "uuid option"
  asset_id :: "uuid option"
  transaction_type :: "string option"
  quantity :: "decimal option"
  price_per_unit :: "decimal option"
  total_amount :: "decimal option"
  fees :: "decimal option"
  tax :: "decimal option"
  order_type :: "string option"
  limit_price :: "decimal option"
  stop_price :: "decimal option"
  status :: "string option"
  transaction_date :: "datetime option"
  settlement_date :: "date option"
  notes' :: "string option"
  external_id :: "string option"
  broker :: "string option"

record Transaction = BaseModel +
  user :: uuid
  asset :: uuid
  transaction_type :: string
  quantity :: decimal
  price_per_unit :: decimal
  total_amount :: "decimal option"
  fees :: decimal
  tax :: decimal
  order_type :: string
  limit_price :: "decimal option"
  stop_price :: "decimal option"
  status :: string
  transaction_date :: datetime
  settlement_date :: "date option"
  notes' :: string
  external_id :: string
  broker :: string

definition TRANSACTION_TYPES :: "string list" where
  "TRANSACTION_TYPES = [''BUY'', ''SELL'', ''TRANSFER_IN'', ''TRANSFER_OUT'', ''DIVIDEND'',
     ''SPLIT'', ''MERGE'', ''SPIN_OFF'', ''RIGHTS'', ''BONUS'']"

definition ORDER_TYPES :: "string list" where
  "ORDER_TYPES = [''MARKET'', ''LIMIT'', ''STOP'', ''STOP_LIMIT'']"

text \<open>\<^verbatim>\<open>Transaction.clean\<close>; the checks run in the order of the source.\<close>

definition Transaction_clean :: "datetime \<Rightarrow> Transaction \<Rightarrow> exn + unit" where
  "Transaction_clean now self =
     (if Transaction.order_type self \<in> set [''LIMIT'', ''STOP_LIMIT'']
         \<and> \<not> truthy (Transaction.limit_price self)
      then Inl (ValidationError ''Limit price is required for limit orders'')
      else if Transaction.order_type self \<in> set [''STOP'', ''STOP_LIMIT'']
         \<and> \<not> truthy (Transaction.stop_price self)
      then Inl (ValidationError ''Stop price is required for stop orders'')
      else if Transaction.transaction_date self > now
      then Inl (ValidationError ''Transaction date cannot be in the future'')
      else Inr ())"

text \<open>
  \<^verbatim>\<open>Transaction.save\<close>: the total is computed when \<^verbatim>\<open>not self.total_amount\<close>, that is when
  it is \<^verbatim>\<open>None\<close> or zero; then the row is written.
\<close>

definition Transaction_save ::
  "bool \<Rightarrow> exn option \<Rightarrow> datetime \<Rightarrow> Transaction \<Rightarrow> Transaction list
     \<Rightarrow> exn + Transaction \<times> Transaction list" where
  "Transaction_save force_insert fault now self db =
     (let s = (if \<not> truthy (Transaction.total_amount self)
               then (let gross_amount = Transaction.quantity self * Transaction.price_per_unit self
                     in self\<lparr>Transaction.total_amount :=
                              Some (gross_amount + Transaction.fees self + Transaction.tax self)\<rparr>)
               else self)
      in Model_save force_insert fault now s db)"

text \<open>
  \<^verbatim>\<open>Transaction.objects.create(**validated_data)\<close>: the instance takes the given values and
  the defaults the fields declare (a character field without a default is the empty
  string), then \<^verbatim>\<open>save(force_insert=True)\<close>. A column that is not nullable and has no
  value makes the insert raise \<^verbatim>\<open>IntegrityError\<close>.
\<close>

definition or_default :: "'a option \<Rightarrow> 'a \<Rightarrow> 'a" where
  "or_default v d = (case v of None \<Rightarrow> d | Some x \<Rightarrow> x)"

definition first_of :: "'a option \<Rightarrow> 'a option \<Rightarrow> 'a option" where
  "first_of a b = (case a of None \<Rightarrow> b | Some x \<Rightarrow> Some x)"

definition Transaction_objects_create ::
  "exn option \<Rightarrow> datetime \<Rightarrow> uuid \<Rightarrow> TransactionData \<Rightarrow> Transaction list
     \<Rightarrow> exn + Transaction \<times> Transaction list" where
  "Transaction_objects_create fault now new_id d db =
     (case (first_of (TransactionData.user d) (user_id d),
            first_of (TransactionData.asset d) (asset_id d),
            TransactionData.quantity d, TransactionData.price_per_unit d) of
        (Some u, Some a, Some q, Some p) \<Rightarrow>
          Transaction_save True fault now
            \<lparr>id' = new_id, created_at = now, updated_at = now, is_active = True,
             Transaction.user = u, Transaction.asset = a,
             Transaction.transaction_type = or_default (TransactionData.transaction_type d) [],
             Transaction.quantity = q, Transaction.price_per_unit = p,
             Transaction.total_amount = TransactionData.total_amount d,
             Transaction.fees = or_default (TransactionData.fees d) 0,
             Transaction.tax = or_default (TransactionData.tax d) 0,
             Transaction.order_type = or_default (TransactionData.order_type d) ''MARKET'',
             Transaction.limit_price = TransactionData.limit_price d,
             Transaction.stop_price = TransactionData.stop_price d,
             Transaction.status = or_default (TransactionData.status d) ''PENDING'',
             Transaction.transaction_date = or_default (TransactionData.transaction_date d) now,
             Transaction.settlement_date = TransactionData.settlement_date d,
             Transaction.notes' = or_default (TransactionData.notes' d) [],
             Transaction.external_id = or_default (TransactionData.external_id d) [],
             Transaction.broker = or_default (TransactionData.broker d) []\<rparr> db
      | _ \<Rightarrow> Inl (OtherException ''django.db.utils'' ''IntegrityError''))"

section \<open>assets/serializers.py\<close>

text \<open>\<^verbatim>\<open>AssetCategorySerializer.validate_parent\<close>; \<open>instance\<close> is \<^verbatim>\<open>self.instance\<close>.\<close>

definition AssetCategorySerializer_validate_parent ::
  "AssetCategory option \<Rightarrow> AssetCategory option \<Rightarrow> exn + AssetCategory option" where
  "AssetCategorySerializer_validate_parent instance value =
     (case (value, instance) of
        (Some v, Some i) \<Rightarrow>
          if BaseModel.id' v = BaseModel.id' i
          then Inl (SerializerValidationError [(''parent'', ''Category cannot be its own parent'')])
          else Inr value
      | _ \<Rightarrow> Inr value)"

text \<open>
  \<^verbatim>\<open>TransactionDetailSerializer.validate\<close>; \<open>request\<close> is \<^verbatim>\<open>self.context.get('request')\<close>.
\<close>

definition TransactionDetailSerializer_validate ::
  "datetime \<Rightarrow> 'd Request option \<Rightarrow> TransactionData \<Rightarrow> exn + TransactionData" where
  "TransactionDetailSerializer_validate now request data0 =
     (let data1 = (if user_id data0 = None
                   then (case request of
                           Some r \<Rightarrow> data0\<lparr>user_id := Some (User.id' (Request.user r))\<rparr>
                         | None \<Rightarrow> data0)
                   else data0);
          order_type' = or_default (TransactionData.order_type data1) ''MARKET''
      in if order_type' \<in> set [''LIMIT'', ''STOP_LIMIT'']
            \<and> \<not> truthy (TransactionData.limit_price data1)
         then Inl (SerializerValidationError
                     [(''limit_price'', ''Limit price is required for limit orders'')])
         else if order_type' \<in> set [''STOP'', ''STOP_LIMIT'']
            \<and> \<not> truthy (TransactionData.stop_price data1)
         then Inl (SerializerValidationError
                     [(''stop_price'', ''Stop price is required for stop orders'')])
         else if (case TransactionData.transaction_date data1 of
                    Some transaction_date' \<Rightarrow> transaction_date' > now
                  | None \<Rightarrow> False)
         then Inl (SerializerValidationError
                     [(''transaction_date'', ''Transaction date cannot be in the future'')])
         else Inr data1)"

text \<open>
  \<^verbatim>\<open>TransactionDetailSerializer.create\<close>; a missing \<^verbatim>\<open>quantity\<close> or \<^verbatim>\<open>price_per_unit\<close>
  key raises \<^verbatim>\<open>KeyError\<close>.
\<close>

definition TransactionDetailSerializer_create ::
  "exn option \<Rightarrow> datetime \<Rightarrow> uuid \<Rightarrow> TransactionData \<Rightarrow> Transaction list
     \<Rightarrow> exn + Transaction \<times> Transaction list" where
  "TransactionDetailSerializer_create fault now new_id validated_data db =
     (case (TransactionData.quantity validated_data,
            TransactionData.price_per_unit validated_data) of
        (Some quantity', Some price_per_unit') \<Rightarrow>
          (let fees' = or_default (TransactionData.fees validated_data) 0;
               tax' = or_default (TransactionData.tax validated_data) 0;
               gross_amount = quantity' * price_per_unit'
           in Transaction_objects_create fault now new_id
                (validated_data\<lparr>TransactionData.total_amount := Some (gross_amount + fees' + tax')\<rparr>)
                db)
      | _ \<Rightarrow> Inl (OtherException ''builtins'' ''KeyError''))"

text \<open>
  \<^verbatim>\<open>TransactionCreateSerializer\<close>. Its two field hooks, then \<^verbatim>\<open>is_valid\<close> as the framework
  runs it over the serializer's \<^verbatim>\<open>fields\<close>: a required key must be present, a related
  object must exist, a choice must be one of the declared ones, a decimal must pass the
  \<^verbatim>\<open>MinValueValidator\<close> its model field declares, and a value that passed goes through
  the serializer's hook for that field. The errors of all fields are collected. Keys that
  are not among \<^verbatim>\<open>fields\<close> do not reach \<^verbatim>\<open>validated_data\<close>. The framework's checks of the
  written form of a value (digit counts) are not part of this model: a decimal is its
  number.
\<close>

definition TransactionCreateSerializer_validate_quantity :: "decimal \<Rightarrow> string + decimal" where
  "TransactionCreateSerializer_validate_quantity value =
     (if value \<le> 0 then Inl ''Quantity must be greater than zero'' else Inr value)"

definition TransactionCreateSerializer_validate_price_per_unit :: "decimal \<Rightarrow> string + decimal" where
  "TransactionCreateSerializer_validate_price_per_unit value =
     (if value \<le> 0 then Inl ''Price per unit must be greater than zero'' else Inr value)"

definition MinValueValidator :: "decimal \<Rightarrow> decimal \<Rightarrow> string list" where
  "MinValueValidator limit_value value =
     (if value < limit_value
      then [''Ensure this value is greater than or equal to the limit value.'']
      else [])"

definition decimal_field_errors ::
  "string \<Rightarrow> bool \<Rightarrow> decimal \<Rightarrow> (decimal \<Rightarrow> string + decimal) \<Rightarrow> decimal option
     \<Rightarrow> (string \<times> string) list" where
  "decimal_field_errors field_name required limit_value validate_method v =
     (case v of
        None \<Rightarrow> if required then [(field_name, ''This field is required.'')] else []
      | Some d \<Rightarrow>
          (case MinValueValidator limit_value d of
             m # ms \<Rightarrow> map (Pair field_name) (m # ms)
           | [] \<Rightarrow> (case validate_method d of
                      Inl m \<Rightarrow> [(field_name, m)]
                    | Inr _ \<Rightarrow> [])))"

definition choice_field_errors ::
  "string \<Rightarrow> bool \<Rightarrow> string list \<Rightarrow> string option \<Rightarrow> (string \<times> string) list" where
  "choice_field_errors field_name required choices v =
     (case v of
        None \<Rightarrow> if required then [(field_name, ''This field is required.'')] else []
      | Some c \<Rightarrow> if c \<in> set choices then [] else [(field_name, ''Not a valid choice.'')])"

definition TransactionCreateSerializer_errors ::
  "Asset list \<Rightarrow> TransactionData \<Rightarrow> (string \<times> string) list" where
  "TransactionCreateSerializer_errors assets d =
     (case TransactionData.asset d of
        None \<Rightarrow> [(''asset'', ''This field is required.'')]
      | Some a \<Rightarrow> if list_ex (\<lambda>row. BaseModel.id' row = a) assets then []
                  else [(''asset'', ''Invalid pk - object does not exist.'')])
     @ choice_field_errors ''transaction_type'' True TRANSACTION_TYPES (TransactionData.transaction_type d)
     @ decimal_field_errors ''quantity'' True (1 / 10 ^ 8)
         TransactionCreateSerializer_validate_quantity (TransactionData.quantity d)
     @ decimal_field_errors ''price_per_unit'' True (1 / 100)
         TransactionCreateSerializer_validate_price_per_unit (TransactionData.price_per_unit d)
     @ decimal_field_errors ''fees'' False 0 Inr (TransactionData.fees d)
     @ decimal_field_errors ''tax'' False 0 Inr (TransactionData.tax d)
     @ choice_field_errors ''order_type'' False ORDER_TYPES (TransactionData.order_type d)
     @ decimal_field_errors ''limit_price'' False (1 / 100) Inr (TransactionData.limit_price d)
     @ decimal_field_errors ''stop_price'' False (1 / 100) Inr (TransactionData.stop_price d)
     @ (case TransactionData.broker d of
          None \<Rightarrow> []
        | Some b \<Rightarrow> if length b > 100
                    then [(''broker'', ''Ensure this field has no more than 100 characters.'')]
                    else [])"

definition TransactionCreateSerializer_is_valid ::
  "Asset list \<Rightarrow> TransactionData \<Rightarrow> exn + TransactionData" where
  "TransactionCreateSerializer_is_valid assets d =
     (case TransactionCreateSerializer_errors assets d of
        [] \<Rightarrow> Inr (d\<lparr>TransactionData.user := None, user_id := None, asset_id := None,
                     TransactionData.total_amount := None, TransactionData.status := None,
                     TransactionData.transaction_date := None,
                     TransactionData.settlement_date := None,
                     TransactionData.external_id := None\<rparr>)
      | e # es \<Rightarrow> Inl (SerializerValidationError (e # es)))"

text \<open>\<^verbatim>\<open>TransactionCreateSerializer.create\<close>.\<close>

definition TransactionCreateSerializer_create ::
  "exn option \<Rightarrow> datetime \<Rightarrow> uuid \<Rightarrow> 'd Request option \<Rightarrow> TransactionData \<Rightarrow> Transaction list
     \<Rightarrow> exn + Transaction \<times> Transaction list" where
  "TransactionCreateSerializer_create fault now new_id request validated_data db =
     (let v1 = (case request of
                  Some r \<Rightarrow> validated_data\<lparr>TransactionData.user := Some (User.id' (Request.user r))\<rparr>
                | None \<Rightarrow> validated_data);
          v2 = (if TransactionData.transaction_date v1 = None
                then v1\<lparr>TransactionData.transaction_date := Some now\<rparr>
                else v1)
      in Transaction_objects_create fault now new_id v2 db)"

section \<open>Responses and the log\<close>

text \<open>
  The body of a response is a JSON value. \<open>JStrOf e\<close> is \<^verbatim>\<open>str(e)\<close> of an exception,
  \<open>JSerialized c t\<close> is the \<^verbatim>\<open>.data\<close> of serializer class \<open>c\<close> on the transaction \<open>t\<close>.
  A log entry is the level with the text; \<open>Error p e\<close> is the text \<open>p\<close> followed by
  \<^verbatim>\<open>str(e)\<close>, \<open>InfoInt p n q\<close> is \<open>p\<close>, the number \<open>n\<close> and \<open>q\<close>.
\<close>

datatype json =
    JNull
  | JStr string
  | JInt int
  | JDec decimal
  | JDateTime datetime
  | JStrOf exn
  | JSerialized string Transaction
  | JObject "(string \<times> json) list"
  | JList "json list"

definition json_get :: "json \<Rightarrow> string \<Rightarrow> json option" where
  "json_get j k = (case j of JObject kvs \<Rightarrow> map_of kvs k | _ \<Rightarrow> None)"

text \<open>The keys of a JSON object, in order.\<close>

definition json_keys :: "json \<Rightarrow> string list" where
  "json_keys j = (case j of JObject kvs \<Rightarrow> map fst kvs | _ \<Rightarrow> [])"

record Response =
  data :: json
  status_code :: nat

datatype log_entry =
    Info string
  | InfoInt string int string
  | Error string exn

section \<open>assets/views.py: TransactionViewSet\<close>

definition TransactionViewSet_get_serializer_class :: "string \<Rightarrow> string" where
  "TransactionViewSet_get_serializer_class action =
     (if action = ''list'' then ''TransactionListSerializer''
      else if action = ''create'' then ''TransactionCreateSerializer''
      else ''TransactionDetailSerializer'')"

text \<open>
  \<^verbatim>\<open>TransactionViewSet.create\<close>. \<^verbatim>\<open>self.get_serializer\<close> builds the serializer class of the
  action \<^verbatim>\<open>create\<close>, which is \<^verbatim>\<open>TransactionCreateSerializer\<close>. Every exception of the
  body is caught and answered with status 400. The result is the response, the table of
  transactions afterwards and the log entries written. The view's permission classes
  admit authenticated users only, so \<^verbatim>\<open>request.user\<close> is a user.
\<close>

definition TransactionViewSet_create ::
  "exn option \<Rightarrow> datetime \<Rightarrow> uuid \<Rightarrow> TransactionData Request \<Rightarrow> Asset list \<Rightarrow> Transaction list
     \<Rightarrow> Response \<times> Transaction list \<times> log_entry list" where
  "TransactionViewSet_create fault now new_id request assets db =
     (let log0 = [Info (''Recording new transaction for user: '' @ username (Request.user request))];
          handler = (\<lambda>e.
            (\<lparr>data = JObject
                 [(''error'', JStr ''Failed to record transaction''),
                  (''details'', if is_staff (Request.user request) then JStrOf e
                                else JStr ''Invalid transaction data'')],
              status_code = 400\<rparr>,
             db, log0 @ [Error ''Error creating transaction: '' e]))
      in case TransactionCreateSerializer_is_valid assets (Request.data request) of
           Inl e \<Rightarrow> handler e
         | Inr validated_data \<Rightarrow>
             (case TransactionCreateSerializer_create fault now new_id (Some request)
                     validated_data db of
                Inl e \<Rightarrow> handler e
              | Inr (transaction, db') \<Rightarrow>
                  (\<lparr>data = JSerialized ''TransactionDetailSerializer'' transaction,
                    status_code = 201\<rparr>, db', log0)))"

text \<open>
  The aggregate \<^verbatim>\<open>aggregate(total=Sum('total_amount'))['total']\<close>: the sum of the values
  that are not null, and \<^verbatim>\<open>None\<close> when there is none. \<open>or_Decimal_0\<close> is Python's
  \<^verbatim>\<open>x or Decimal('0')\<close>.
\<close>

definition Sum_total_amount :: "Transaction list \<Rightarrow> decimal option" where
  "Sum_total_amount rows =
     (case List.map_filter Transaction.total_amount rows of
        [] \<Rightarrow> None
      | a # as \<Rightarrow> Some (sum_list (a # as)))"

definition or_Decimal_0 :: "decimal option \<Rightarrow> decimal" where
  "or_Decimal_0 x = (if truthy x then (case x of Some d \<Rightarrow> d | None \<Rightarrow> 0) else 0)"

text \<open>
  \<^verbatim>\<open>TransactionViewSet.summary\<close>. The five most recent transactions are ordered by
  descending date; the order among equal dates is the database's (here: that of the
  table). The queries of this model raise nothing, so the handler of the source that
  answers 500 has no counterpart.
\<close>

definition TransactionViewSet_summary :: "'d Request \<Rightarrow> Transaction list \<Rightarrow> Response" where
  "TransactionViewSet_summary request db =
     (let user_transactions =
            filter (\<lambda>t. Transaction.user t = User.id' (Request.user request)
                         \<and> BaseModel.is_active t) db;
          completed_transactions =
            filter (\<lambda>t. Transaction.status t = ''COMPLETED'') user_transactions;
          total_transactions = length completed_transactions;
          total_volume = or_Decimal_0 (Sum_total_amount completed_transactions);
          buy_volume = or_Decimal_0 (Sum_total_amount
            (filter (\<lambda>t. Transaction.transaction_type t = ''BUY'') completed_transactions));
          sell_volume = or_Decimal_0 (Sum_total_amount
            (filter (\<lambda>t. Transaction.transaction_type t = ''SELL'') completed_transactions));
          recent_transactions =
            take 5 (sort_key (\<lambda>t. - Transaction.transaction_date t) user_transactions);
          recent_data = JList (map (JSerialized ''TransactionListSerializer'') recent_transactions)
      in \<lparr>data = JObject
             [(''summary'', JObject
                 [(''total_transactions'', JInt (int total_transactions)),
                  (''total_volume'', JDec total_volume),
                  (''buy_volume'', JDec buy_volume),
                  (''sell_volume'', JDec sell_volume),
                  (''net_volume'', JDec (buy_volume - sell_volume)),
                  (''pending_transactions'', JInt (int (length
                     (filter (\<lambda>t. Transaction.status t = ''PENDING'') user_transactions))))]),
              (''recent_transactions'', recent_data)],
          status_code = 200\<rparr>)"

section \<open>core/middleware.py\<close>



section \<open>assets/views.py: AssetCategoryViewSet\<close>

text \<open>
  \<^verbatim>\<open>AssetCategoryViewSet\<close> is the framework's \<^verbatim>\<open>ModelViewSet\<close> over the active categories
  with \<^verbatim>\<open>AssetCategorySerializer\<close>. The payload of a request: every key may be absent;
  \<open>parent\<close> may also be given as \<^verbatim>\<open>null\<close>.
\<close>

record AssetCategoryData =
  name :: "string option"
  description :: "string option"
  parent :: "uuid option option"
  icon :: "string option"
  color :: "string option"
  is_active :: "bool option"

text \<open>
  \<^verbatim>\<open>is_valid\<close> of the serializer: \<open>name\<close> is required (unless the update is partial), not
  blank, at most 100 characters and unique; a \<open>parent\<close> that is given must be the primary
  key of a stored category, and the category found goes through \<^verbatim>\<open>validate_parent\<close>.
\<close>

definition max_length_errors :: "string \<Rightarrow> nat \<Rightarrow> string option \<Rightarrow> (string \<times> string) list" where
  "max_length_errors field_name n v =
     (case v of
        None \<Rightarrow> []
      | Some s \<Rightarrow> if length s > n
                  then [(field_name, ''Ensure this field has no more characters than allowed.'')]
                  else [])"

definition AssetCategorySerializer_errors ::
  "bool \<Rightarrow> AssetCategory option \<Rightarrow> AssetCategory list \<Rightarrow> AssetCategoryData
     \<Rightarrow> (string \<times> string) list" where
  "AssetCategorySerializer_errors partial instance db d =
     (case AssetCategoryData.name d of
        None \<Rightarrow> if partial then [] else [(''name'', ''This field is required.'')]
      | Some n \<Rightarrow>
          if n = [] then [(''name'', ''This field may not be blank.'')]
          else if list_ex (\<lambda>row. AssetCategory.name row = n
                             \<and> (case instance of
                                   None \<Rightarrow> True
                                 | Some i \<Rightarrow> BaseModel.id' row \<noteq> BaseModel.id' i)) db
          then [(''name'', ''asset category with this name already exists.'')]
          else max_length_errors ''name'' 100 (Some n))
     @ (case AssetCategoryData.parent d of
          None \<Rightarrow> []
        | Some None \<Rightarrow>
            (case AssetCategorySerializer_validate_parent instance None of
               Inl (SerializerValidationError es) \<Rightarrow> es
             | _ \<Rightarrow> [])
        | Some (Some pk) \<Rightarrow>
            (case find (\<lambda>row. BaseModel.id' row = pk) db of
               None \<Rightarrow> [(''parent'', ''Invalid pk - object does not exist.'')]
             | Some value \<Rightarrow>
                 (case AssetCategorySerializer_validate_parent instance (Some value) of
                    Inl (SerializerValidationError es) \<Rightarrow> es
                  | _ \<Rightarrow> [])))
     @ max_length_errors ''icon'' 50 (AssetCategoryData.icon d)
     @ max_length_errors ''color'' 7 (AssetCategoryData.color d)"

text \<open>
  The action \<^verbatim>\<open>create\<close>: validation without an instance, then
  \<^verbatim>\<open>AssetCategory.objects.create\<close> with the defaults of the model's fields.
\<close>

definition AssetCategoryViewSet_create ::
  "exn option \<Rightarrow> datetime \<Rightarrow> uuid \<Rightarrow> AssetCategoryData \<Rightarrow> AssetCategory list
     \<Rightarrow> exn + AssetCategory \<times> AssetCategory list" where
  "AssetCategoryViewSet_create fault now new_id d db =
     (case AssetCategorySerializer_errors False None db d of
        e # es \<Rightarrow> Inl (SerializerValidationError (e # es))
      | [] \<Rightarrow>
          Model_save True fault now
            \<lparr>id' = new_id, created_at = now, updated_at = now,
             BaseModel.is_active = or_default (AssetCategoryData.is_active d) True,
             AssetCategory.name = or_default (AssetCategoryData.name d) [],
             AssetCategory.description = or_default (AssetCategoryData.description d) [],
             AssetCategory.parent = or_default (AssetCategoryData.parent d) None,
             AssetCategory.icon = or_default (AssetCategoryData.icon d) [],
             AssetCategory.color = or_default (AssetCategoryData.color d) ''#007bff''\<rparr> db)"

text \<open>
  The actions \<^verbatim>\<open>update\<close> and \<^verbatim>\<open>partial_update\<close>: the instance is the active category with
  the primary key of the URL (\<^verbatim>\<open>Http404\<close> when there is none); validation with this
  instance; the keys given replace the instance's values; the instance is saved.
\<close>

definition AssetCategoryViewSet_update ::
  "bool \<Rightarrow> exn option \<Rightarrow> datetime \<Rightarrow> uuid \<Rightarrow> AssetCategoryData \<Rightarrow> AssetCategory list
     \<Rightarrow> exn + AssetCategory \<times> AssetCategory list" where
  "AssetCategoryViewSet_update partial fault now pk d db =
     (case find (\<lambda>row. BaseModel.id' row = pk \<and> BaseModel.is_active row) db of
        None \<Rightarrow> Inl (OtherException ''django.http.response'' ''Http404'')
      | Some instance \<Rightarrow>
          (case AssetCategorySerializer_errors partial (Some instance) db d of
             e # es \<Rightarrow> Inl (SerializerValidationError (e # es))
           | [] \<Rightarrow>
               Model_save False fault now
                 (instance\<lparr>
                    BaseModel.is_active :=
                      or_default (AssetCategoryData.is_active d) (BaseModel.is_active instance),
                    AssetCategory.name :=
                      or_default (AssetCategoryData.name d) (AssetCategory.name instance),
                    AssetCategory.description :=
                      or_default (AssetCategoryData.description d) (AssetCategory.description instance),
                    AssetCategory.parent :=
                      or_default (AssetCategoryData.parent d) (AssetCategory.parent instance),
                    AssetCategory.icon :=
                      or_default (AssetCategoryData.icon d) (AssetCategory.icon instance),
                    AssetCategory.color :=
                      or_default (AssetCategoryData.color d) (AssetCategory.color instance)\<rparr>) db))"

text \<open>The invariant of the table of categories: no row is its own parent.\<close>

definition no_own_parent :: "AssetCategory list \<Rightarrow> bool" where
  "no_own_parent db = list_all (\<lambda>row. AssetCategory.parent row \<noteq> Some (BaseModel.id' row)) db"

section \<open>assets/views.py: AnalyticsViewSet\<close>

text \<open>
  The query parameters of \<^verbatim>\<open>graphs\<close>, as the strings of the URL, and the results of the
  seven functions of \<^verbatim>\<open>assets/utils.py\<close> that compute the graphs. Each of those functions
  catches its own exceptions and returns a list, so here each is the value it returns.
\<close>

record GraphsParams =
  days :: "string option"
  graph_type :: "string option"

record GraphData =
  get_user_growth_data :: "datetime \<Rightarrow> datetime \<Rightarrow> json"
  get_asset_distribution_data :: json
  get_transaction_volume_data :: "datetime \<Rightarrow> datetime \<Rightarrow> json"
  get_portfolio_performance_data :: json
  get_asset_type_performance :: json
  get_top_assets_by_volume :: json
  get_transaction_trends :: "datetime \<Rightarrow> datetime \<Rightarrow> json"

text \<open>The keys that \<^verbatim>\<open>AnalyticsViewSet.available_graphs\<close> lists.\<close>

definition available_graphs :: "string list" where
  "available_graphs = [''user_growth'', ''asset_distribution'', ''transaction_volume'',
     ''portfolio_performance'', ''asset_type_performance'', ''top_assets'',
     ''transaction_trends'']"

text \<open>\<^verbatim>\<open>timedelta(days=n)\<close> on the time line, whose unit is the microsecond.\<close>

definition timedelta :: "int \<Rightarrow> int" where
  "timedelta n = n * 86400000000"

text \<open>
  \<^verbatim>\<open>AnalyticsViewSet.graphs\<close>. \<open>int'\<close> is Python's \<^verbatim>\<open>int\<close> on a string, \<open>None\<close> where it
  raises \<^verbatim>\<open>ValueError\<close>. The test \<^verbatim>\<open>if graph_type\<close> is a Python truth value: the empty
  string counts as no graph type. Nothing else in this model raises, so the handler of
  the source that answers 500 has no counterpart.
\<close>

definition AnalyticsViewSet_graphs ::
  "(string \<Rightarrow> int option) \<Rightarrow> GraphData \<Rightarrow> datetime \<Rightarrow> GraphsParams Request
     \<Rightarrow> User list \<Rightarrow> Asset list \<Rightarrow> Transaction list \<Rightarrow> Response \<times> log_entry list" where
  "AnalyticsViewSet_graphs int' g now request users assets transactions =
     (case (case days (Request.data request) of None \<Rightarrow> Some 30 | Some s \<Rightarrow> int' s) of
        None \<Rightarrow>
          (\<lparr>data = JObject [(''error'', JStr ''Invalid parameters provided'')],
            status_code = 400\<rparr>,
           [Error ''Invalid parameter in analytics request: ''
              (ValueError ''invalid literal for int()'')])
      | Some days' \<Rightarrow>
          if days' < 1 \<or> days' > 365
          then (\<lparr>data = JObject [(''error'', JStr ''Days parameter must be between 1 and 365'')],
                 status_code = 400\<rparr>, [])
          else
            (let end_date = now;
                 start_date = end_date - timedelta days';
                 summary = JObject
                   [(''total_users'', JInt (int (length (filter User.is_active users)))),
                    (''total_assets'', JInt (int (length (filter BaseModel.is_active assets)))),
                    (''total_transactions'',
                       JInt (int (length (filter BaseModel.is_active transactions)))),
                    (''total_volume'', JDec (or_Decimal_0 (Sum_total_amount
                       (filter (\<lambda>t. Transaction.status t = ''COMPLETED'' \<and> BaseModel.is_active t)
                          transactions)))),
                    (''date_range'', JObject
                       [(''start_date'', JDateTime start_date),
                        (''end_date'', JDateTime end_date),
                        (''days'', JInt days')])];
                 ok = (\<lambda>response_data.
                   (\<lparr>data = JObject (response_data @ [(''summary'', summary)]),
                     status_code = 200\<rparr>,
                    [InfoInt ''Successfully generated analytics data for '' days' '' days'']))
             in case graph_type (Request.data request) of
                  Some (c # cs) \<Rightarrow>
                    (let graph_type' = c # cs
                     in if graph_type' = ''user_growth''
                        then ok [(''user_growth'', get_user_growth_data g start_date end_date)]
                        else if graph_type' = ''asset_distribution''
                        then ok [(''asset_distribution'', get_asset_distribution_data g)]
                        else if graph_type' = ''transaction_volume''
                        then ok [(''transaction_volume'',
                                  get_transaction_volume_data g start_date end_date)]
                        else if graph_type' = ''portfolio_performance''
                        then ok [(''portfolio_performance'', get_portfolio_performance_data g)]
                        else if graph_type' = ''asset_type_performance''
                        then ok [(''asset_type_performance'', get_asset_type_performance g)]
                        else if graph_type' = ''top_assets''
                        then ok [(''top_assets'', get_top_assets_by_volume g)]
                        else if graph_type' = ''transaction_trends''
                        then ok [(''transaction_trends'', get_transaction_trends g start_date end_date)]
                        else (\<lparr>data = JObject
                                  [(''error'', JStr (''Unknown graph type: '' @ graph_type'))],
                               status_code = 400\<rparr>, []))
                | _ \<Rightarrow>
                    ok [(''user_growth'', get_user_growth_data g start_date end_date),
                        (''asset_distribution'', get_asset_distribution_data g),
                        (''transaction_volume'', get_transaction_volume_data g start_date end_date),
                        (''portfolio_performance'', get_portfolio_performance_data g),
                        (''asset_type_performance'', get_asset_type_performance g),
                        (''top_assets'', get_top_assets_by_volume g),
                        (''transaction_trends'', get_transaction_trends g start_date end_date)]))"

section \<open>Example data\<close>

text \<open>
  Concrete values for the closed theorems: a user, an asset, the payload of the example
  request that \<^verbatim>\<open>assets/views.py\<close> documents for the creation of a transaction, stored
  transactions and categories, and for the analytics endpoint the results of the graph
  functions and the values of Python's \<^verbatim>\<open>int\<close> on the strings used.
\<close>

definition example_user :: User where
  "example_user = \<lparr>User.id' = 7, username = ''alice'', is_staff = False, User.is_active = True\<rparr>"

definition example_asset :: Asset where
  "example_asset =
     \<lparr>id' = 1, created_at = 0, updated_at = 0, BaseModel.is_active = True,
      Asset.name = ''Apple Inc.'', symbol = ''AAPL'', asset_type = ''STOCK'', category = None,
      Asset.description = [], company_name = ''Apple Inc.'', website_url = [],
      current_price = 150, currency = ''USD'', market_cap = None, risk_level = ''MEDIUM'',
      beta = None, dividend_yield = None, Asset.status = ''ACTIVE'', exchange = ''NASDAQ'',
      isin = None, price_last_updated = None, day_high = Some 160, day_low = Some 140\<rparr>"

definition example_data :: TransactionData where
  "example_data =
     \<lparr>TransactionData.user = None, user_id = None, TransactionData.asset = Some 1,
      asset_id = None, TransactionData.transaction_type = Some ''BUY'',
      TransactionData.quantity = Some 100, TransactionData.price_per_unit = Some (15025 / 100),
      TransactionData.total_amount = None, TransactionData.fees = Some (999 / 100),
      TransactionData.tax = None, TransactionData.order_type = Some ''MARKET'',
      TransactionData.limit_price = None, TransactionData.stop_price = None,
      TransactionData.status = None, TransactionData.transaction_date = None,
      TransactionData.settlement_date = None, TransactionData.notes' = Some ''Monthly investment'',
      TransactionData.external_id = None, TransactionData.broker = Some ''Interactive Brokers''\<rparr>"

definition example_request :: "TransactionData Request" where
  "example_request = \<lparr>Request.user = example_user, Request.data = example_data\<rparr>"

definition example_limit_request :: "TransactionData Request" where
  "example_limit_request =
     \<lparr>Request.user = example_user,
      Request.data = example_data\<lparr>TransactionData.order_type := Some ''LIMIT''\<rparr>\<rparr>"

definition example_transaction :: Transaction where
  "example_transaction =
     \<lparr>id' = 42, created_at = 1000, updated_at = 1000, BaseModel.is_active = True,
      Transaction.user = 7, Transaction.asset = 1, Transaction.transaction_type = ''BUY'',
      Transaction.quantity = 100, Transaction.price_per_unit = 15025 / 100,
      Transaction.total_amount = Some (1503499 / 100), Transaction.fees = 999 / 100,
      Transaction.tax = 0, Transaction.order_type = ''MARKET'', Transaction.limit_price = None,
      Transaction.stop_price = None, Transaction.status = ''COMPLETED'',
      Transaction.transaction_date = 1000, Transaction.settlement_date = None,
      Transaction.notes' = ''Monthly investment'', Transaction.external_id = [],
      Transaction.broker = ''Interactive Brokers''\<rparr>"

definition example_transactions :: "Transaction list" where
  "example_transactions =
     [example_transaction,
      example_transaction\<lparr>id' := 43, Transaction.transaction_type := ''SELL'',
                            Transaction.total_amount := Some 5000\<rparr>,
      example_transaction\<lparr>id' := 44, Transaction.status := ''PENDING''\<rparr>,
      example_transaction\<lparr>id' := 45, Transaction.user := 8\<rparr>,
      example_transaction\<lparr>id' := 46, BaseModel.is_active := False\<rparr>]"

definition example_categories :: "AssetCategory list" where
  "example_categories =
     [\<lparr>id' = 1, created_at = 0, updated_at = 0, BaseModel.is_active = True,
       AssetCategory.name = ''Equities'', AssetCategory.description = [],
       AssetCategory.parent = None, AssetCategory.icon = [], AssetCategory.color = ''#007bff''\<rparr>,
      \<lparr>id' = 2, created_at = 0, updated_at = 0, BaseModel.is_active = True,
       AssetCategory.name = ''Technology'', AssetCategory.description = [],
       AssetCategory.parent = Some 1, AssetCategory.icon = [], AssetCategory.color = ''#007bff''\<rparr>]"

definition example_category_data :: AssetCategoryData where
  "example_category_data =
     \<lparr>AssetCategoryData.name = Some ''Software'', AssetCategoryData.description = None,
      AssetCategoryData.parent = Some (Some 2), AssetCategoryData.icon = None,
      AssetCategoryData.color = None, AssetCategoryData.is_active = None\<rparr>"

definition example_graph_data :: GraphData where
  "example_graph_data =
     \<lparr>get_user_growth_data = (\<lambda>start_date end_date. JList []),
      get_asset_distribution_data = JList [],
      get_transaction_volume_data = (\<lambda>start_date end_date. JList []),
      get_portfolio_performance_data = JList [],
      get_asset_type_performance = JList [],
      get_top_assets_by_volume = JList [],
      get_transaction_trends = (\<lambda>start_date end_date. JList [])\<rparr>"

definition example_int :: "string \<Rightarrow> int option" where
  "example_int s = (if s = ''7'' then Some 7 else if s = ''400'' then Some 400 else None)"

definition example_graphs_request :: "GraphsParams Request" where
  "example_graphs_request =
     \<lparr>Request.user = example_user,
      Request.data = \<lparr>days = Some ''7'', graph_type = Some ''top_assets''\<rparr>\<rparr>"

section \<open>Asset: validation and price updates\<close>






text \<open>
  When both prices are set and neither is zero, \<^verbatim>\<open>Asset.clean\<close> does reject a high below
  the low.
\<close>

lemma Asset_clean_rejects_nonzero:
  assumes "day_high a = Some h" and "day_low a = Some l" and "h \<noteq> 0" and "l \<noteq> 0" and "h < l"
  shows "Asset_clean a = Inl (ValidationError ''Day high cannot be less than day low'')"
  using assms by (simp add: Asset_clean_def truthy_def)

text \<open>
  Claim C2: for every asset with both \<open>day_high\<close> and \<open>day_low\<close> set, validation rejects an
  asset whose \<open>day_high\<close> is strictly less than its \<open>day_low\<close>. The code tests the two
  prices by their truth value, so a price of zero counts as not set: the asset with
  \<open>day_high = 0\<close> and \<open>day_low = 5\<close> passes \<^verbatim>\<open>Asset.clean\<close>.
\<close>

theorem Asset_clean_accepts_zero_day_high:
  "day_high (example_asset\<lparr>day_high := Some 0, day_low := Some 5\<rparr>) = Some 0
   \<and> day_low (example_asset\<lparr>day_high := Some 0, day_low := Some 5\<rparr>) = Some 5
   \<and> Asset_clean (example_asset\<lparr>day_high := Some 0, day_low := Some 5\<rparr>) = Inr ()"
  by (simp add: Asset_clean_def example_asset_def truthy_def)



section \<open>Transactions: creation\<close>

lemmas create_defs = TransactionViewSet_create_def
     TransactionCreateSerializer_is_valid_def TransactionCreateSerializer_errors_def
     choice_field_errors_def decimal_field_errors_def MinValueValidator_def
     TransactionCreateSerializer_validate_quantity_def TransactionCreateSerializer_validate_price_per_unit_def
     TRANSACTION_TYPES_def ORDER_TYPES_def TransactionCreateSerializer_create_def
     Transaction_objects_create_def first_of_def or_default_def Transaction_save_def truthy_def
     Model_save_def Let_def

lemmas example_defs = example_request_def example_data_def example_asset_def example_user_def
     example_limit_request_def

text \<open>The serializer class that the action \<^verbatim>\<open>create\<close> validates and saves with.\<close>

lemma TransactionViewSet_create_serializer_class:
  "TransactionViewSet_get_serializer_class ''create'' = ''TransactionCreateSerializer''"
  by (simp add: TransactionViewSet_get_serializer_class_def)

lemma Model_save_insert:
  assumes "Model_save True fault now self db = Inr (s, db')"
  shows "s = self\<lparr>created_at := now, updated_at := now\<rparr> \<and> db' = db @ [s]"
  using assms by (auto simp: Model_save_def Let_def split: option.splits if_splits)

lemma Transaction_save_insert:
  assumes "Transaction_save True fault now self db = Inr (s, db')"
  shows "db' = db @ [s]
    \<and> Transaction.quantity s = Transaction.quantity self
    \<and> Transaction.price_per_unit s = Transaction.price_per_unit self
    \<and> Transaction.fees s = Transaction.fees self
    \<and> Transaction.tax s = Transaction.tax self
    \<and> Transaction.total_amount s =
        (if truthy (Transaction.total_amount self) then Transaction.total_amount self
         else Some (Transaction.quantity self * Transaction.price_per_unit self
                    + Transaction.fees self + Transaction.tax self))"
  using assms unfolding Transaction_save_def Let_def
  by (auto dest!: Model_save_insert split: if_splits)




lemma TransactionDetailSerializer_create_total:
  assumes "TransactionDetailSerializer_create fault now new_id d db = Inr (t, db')"
  shows "Transaction.total_amount t =
           Some (Transaction.quantity t * Transaction.price_per_unit t
                 + Transaction.fees t + Transaction.tax t)"
  using assms unfolding TransactionDetailSerializer_create_def Transaction_objects_create_def Let_def
  by (auto split: option.splits dest!: Transaction_save_insert)




section \<open>Transactions: order types and dates\<close>

text \<open>
  \<^verbatim>\<open>Transaction.clean\<close> and \<^verbatim>\<open>TransactionDetailSerializer.validate\<close> do raise the error of a
  missing limit or stop price exactly for the order types that need one.
\<close>

lemma Transaction_clean_requires_prices:
  "(Transaction_clean now t = Inl (ValidationError ''Limit price is required for limit orders'')
    \<or> Transaction_clean now t = Inl (ValidationError ''Stop price is required for stop orders''))
   \<longleftrightarrow>
   (Transaction.order_type t \<in> {''LIMIT'', ''STOP_LIMIT''} \<and> \<not> truthy (Transaction.limit_price t))
   \<or> (Transaction.order_type t \<in> {''STOP'', ''STOP_LIMIT''} \<and> \<not> truthy (Transaction.stop_price t))"
  by (auto simp: Transaction_clean_def)

text \<open>
  Claim C3: creating or validating a transaction fails with a validation error exactly
  when a conditionally required price is missing (\<open>limit_price\<close> for the order types LIMIT
  and STOP_LIMIT, \<open>stop_price\<close> for STOP and STOP_LIMIT). The endpoint that creates
  transactions validates with \<^verbatim>\<open>TransactionCreateSerializer\<close>, which has no such check: a
  LIMIT order without a limit price is answered with 201 and stored, although
  \<^verbatim>\<open>Transaction.clean\<close> rejects the stored row and
  \<^verbatim>\<open>TransactionDetailSerializer.validate\<close> rejects the same payload.
\<close>

theorem TransactionViewSet_create_accepts_limit_order_without_limit_price:
  "(case TransactionViewSet_create None 1000 42 example_limit_request [example_asset] [] of
      (response, db', lg) \<Rightarrow>
        TransactionData.order_type (Request.data example_limit_request) = Some ''LIMIT''
        \<and> TransactionData.limit_price (Request.data example_limit_request) = None
        \<and> status_code response = 201
        \<and> map Transaction.order_type db' = [''LIMIT'']
        \<and> map Transaction.limit_price db' = [None]
        \<and> map (Transaction_clean 1000) db' =
              [Inl (ValidationError ''Limit price is required for limit orders'')])
   \<and> TransactionDetailSerializer_validate 1000 (Some example_limit_request)
         (Request.data example_limit_request) =
       Inl (SerializerValidationError
              [(''limit_price'', ''Limit price is required for limit orders'')])"
  by (simp add: create_defs example_defs Transaction_clean_def TransactionDetailSerializer_validate_def)

text \<open>
  Claim C4: a transaction whose \<open>transaction_date\<close> is strictly later than the current time
  fails validation with a validation error, and a transaction dated at or before the
  current time passes the check of the date. Both for \<^verbatim>\<open>Transaction.clean\<close> and for
  \<^verbatim>\<open>TransactionDetailSerializer.validate\<close>.
\<close>

theorem Transaction_date_not_in_future:
  "(Transaction.transaction_date t > now \<longrightarrow>
      (\<exists>msg. Transaction_clean now t = Inl (ValidationError msg)))
   \<and> (Transaction.transaction_date t \<le> now \<longrightarrow>
      Transaction_clean now t \<noteq> Inl (ValidationError ''Transaction date cannot be in the future''))
   \<and> (TransactionData.transaction_date d = Some td \<and> td > now \<longrightarrow>
      (\<exists>errs. TransactionDetailSerializer_validate now request d
                = Inl (SerializerValidationError errs)))
   \<and> (TransactionData.transaction_date d = Some td \<and> td \<le> now \<longrightarrow>
      TransactionDetailSerializer_validate now request d
        \<noteq> Inl (SerializerValidationError
                 [(''transaction_date'', ''Transaction date cannot be in the future'')]))"
  by (auto simp: Transaction_clean_def TransactionDetailSerializer_validate_def Let_def
           split: option.splits)


theorem Transaction_date_not_in_future_witness:
  "Transaction.transaction_date (example_transaction\<lparr>Transaction.transaction_date := 2000\<rparr>) > 1000
   \<and> (\<exists>msg. Transaction_clean 1000 (example_transaction\<lparr>Transaction.transaction_date := 2000\<rparr>)
               = Inl (ValidationError msg))
   \<and> Transaction.transaction_date example_transaction \<le> 1000
   \<and> Transaction_clean 1000 example_transaction
        \<noteq> Inl (ValidationError ''Transaction date cannot be in the future'')
   \<and> TransactionData.transaction_date (example_data\<lparr>TransactionData.transaction_date := Some 2000\<rparr>) = Some 2000
   \<and> (\<exists>errs. TransactionDetailSerializer_validate 1000 (Some example_request)
                  (example_data\<lparr>TransactionData.transaction_date := Some 2000\<rparr>)
                = Inl (SerializerValidationError errs))
   \<and> TransactionData.transaction_date (example_data\<lparr>TransactionData.transaction_date := Some 500\<rparr>) = Some 500
   \<and> TransactionDetailSerializer_validate 1000 (Some example_request)
         (example_data\<lparr>TransactionData.transaction_date := Some 500\<rparr>)
        \<noteq> Inl (SerializerValidationError
                 [(''transaction_date'', ''Transaction date cannot be in the future'')])"
  using Transaction_date_not_in_future[where t = "example_transaction\<lparr>Transaction.transaction_date := 2000\<rparr>"
              and now = 1000 and td = 2000 and request = "Some example_request"
              and d = "example_data\<lparr>TransactionData.transaction_date := Some 2000\<rparr>"]
        Transaction_date_not_in_future[where t = example_transaction and now = 1000 and td = 500
              and request = "Some example_request"
              and d = "example_data\<lparr>TransactionData.transaction_date := Some 500\<rparr>"]
  by (simp add: example_transaction_def)

lemma TransactionCreateSerializer_is_valid_errors:
  "TransactionCreateSerializer_is_valid assets d =
     (if TransactionCreateSerializer_errors assets d = []
      then Inr (d\<lparr>TransactionData.user := None, user_id := None, asset_id := None,
                     TransactionData.total_amount := None, TransactionData.status := None,
                     TransactionData.transaction_date := None,
                     TransactionData.settlement_date := None,
                     TransactionData.external_id := None\<rparr>)
      else Inl (SerializerValidationError (TransactionCreateSerializer_errors assets d)))"
  by (simp add: TransactionCreateSerializer_is_valid_def split: list.splits)

lemma TransactionCreateSerializer_quantity_error:
  assumes "TransactionData.quantity d = Some q" and "q \<le> 0"
  shows "(''quantity'', ''Ensure this value is greater than or equal to the limit value.'')
           \<in> set (TransactionCreateSerializer_errors assets d)"
proof -
  have "q < 1 / 10 ^ 8" using assms(2) by (rule le_less_trans) simp
  then show ?thesis using assms(1)
    by (simp add: TransactionCreateSerializer_errors_def decimal_field_errors_def MinValueValidator_def)
qed

text \<open>
  Claim C5: creating a transaction with a quantity that is zero or negative fails with a
  validation error, and no transaction record is created: the response has status 400,
  the serializer's errors name the field \<open>quantity\<close>, and the table is unchanged.
\<close>

theorem TransactionViewSet_create_rejects_nonpositive_quantity:
  assumes "TransactionData.quantity (Request.data request) = Some q" and "q \<le> 0"
  shows "\<exists>response lg errs.
     TransactionViewSet_create fault now new_id request assets db = (response, db, lg)
     \<and> status_code response = 400
     \<and> TransactionCreateSerializer_is_valid assets (Request.data request) =
           Inl (SerializerValidationError errs)
     \<and> ''quantity'' \<in> fst ` set errs"
proof -
  let ?errs = "TransactionCreateSerializer_errors assets (Request.data request)"
  have m: "(''quantity'', ''Ensure this value is greater than or equal to the limit value.'') \<in> set ?errs"
    by (rule TransactionCreateSerializer_quantity_error[OF assms])
  then have ne: "?errs \<noteq> []" by auto
  have v: "TransactionCreateSerializer_is_valid assets (Request.data request) =
           Inl (SerializerValidationError ?errs)"
    using ne by (simp add: TransactionCreateSerializer_is_valid_errors)
  have "''quantity'' \<in> fst ` set ?errs" using m by force
  then show ?thesis
    using v by (simp add: TransactionViewSet_create_def Let_def)
qed

theorem TransactionViewSet_create_rejects_nonpositive_quantity_witness:
  "TransactionData.quantity (Request.data (example_request\<lparr>Request.data := example_data\<lparr>TransactionData.quantity := Some 0\<rparr>\<rparr>)) = Some 0
   \<and> (0::decimal) \<le> 0
   \<and> (\<exists>response lg errs.
     TransactionViewSet_create None 1000 42
        (example_request\<lparr>Request.data := example_data\<lparr>TransactionData.quantity := Some 0\<rparr>\<rparr>)
        [example_asset] [] = (response, [], lg)
     \<and> status_code response = 400
     \<and> TransactionCreateSerializer_is_valid [example_asset]
          (Request.data (example_request\<lparr>Request.data := example_data\<lparr>TransactionData.quantity := Some 0\<rparr>\<rparr>)) =
           Inl (SerializerValidationError errs)
     \<and> ''quantity'' \<in> fst ` set errs)"
proof -
  have h: "TransactionData.quantity (Request.data (example_request\<lparr>Request.data := example_data\<lparr>TransactionData.quantity := Some 0\<rparr>\<rparr>)) = Some 0"
    by simp
  have z: "(0::decimal) \<le> 0" by simp
  from TransactionViewSet_create_rejects_nonpositive_quantity[OF h z, of None 1000 42 "[example_asset]" "[]"] h z show ?thesis by blast
qed

section \<open>Transactions: summary\<close>

lemma or_Decimal_0_Sum:
  "or_Decimal_0 (Sum_total_amount rows) = sum_list (List.map_filter Transaction.total_amount rows)"
  by (auto simp: or_Decimal_0_def Sum_total_amount_def truthy_def split: list.splits)

lemma total_amounts_not_null:
  assumes "\<forall>t\<in>set rows. Transaction.total_amount t \<noteq> None"
  shows "List.map_filter Transaction.total_amount rows
         = map (\<lambda>t. the (Transaction.total_amount t)) rows"
  using assms by (induction rows) auto

lemma or_Decimal_0_Sum_filter:
  assumes "\<forall>t\<in>set rows. Transaction.total_amount t \<noteq> None"
  shows "or_Decimal_0 (Sum_total_amount (filter P rows))
         = (\<Sum>t\<leftarrow>filter P rows. the (Transaction.total_amount t))"
proof -
  have "\<forall>t\<in>set (filter P rows). Transaction.total_amount t \<noteq> None" using assms by simp
  then show ?thesis by (simp only: or_Decimal_0_Sum total_amounts_not_null)
qed

text \<open>
  Claim C7: the summary endpoint returns, for the requesting user, \<open>total_volume\<close> equal
  to the sum of \<open>total_amount\<close> over that user's active COMPLETED transactions,
  \<open>buy_volume\<close> and \<open>sell_volume\<close> equal to the same sum over those of type BUY and SELL,
  and \<open>net_volume\<close> equal to \<open>buy_volume\<close> minus \<open>sell_volume\<close>. The column \<open>total_amount\<close> is
  not nullable, which is the hypothesis.
\<close>

theorem TransactionViewSet_summary_volumes:
  assumes "\<forall>t\<in>set db. Transaction.total_amount t \<noteq> None"
  shows "let completed = filter (\<lambda>t. Transaction.user t = User.id' (Request.user request)
                                      \<and> BaseModel.is_active t
                                      \<and> Transaction.status t = ''COMPLETED'') db;
             buy = (\<Sum>t\<leftarrow>filter (\<lambda>t. Transaction.transaction_type t = ''BUY'') completed.
                       the (Transaction.total_amount t));
             sell = (\<Sum>t\<leftarrow>filter (\<lambda>t. Transaction.transaction_type t = ''SELL'') completed.
                       the (Transaction.total_amount t));
             response = TransactionViewSet_summary request db
         in status_code response = 200
          \<and> (\<exists>s. json_get (Response.data response) ''summary'' = Some s
               \<and> json_get s ''total_volume''
                   = Some (JDec (\<Sum>t\<leftarrow>completed. the (Transaction.total_amount t)))
               \<and> json_get s ''buy_volume'' = Some (JDec buy)
               \<and> json_get s ''sell_volume'' = Some (JDec sell)
               \<and> json_get s ''net_volume'' = Some (JDec (buy - sell)))"
proof -
  have f: "filter (\<lambda>t. Transaction.status t = ''COMPLETED'')
             (filter (\<lambda>t. Transaction.user t = User.id' (Request.user request)
                          \<and> BaseModel.is_active t) db)
           = filter (\<lambda>t. Transaction.user t = User.id' (Request.user request)
                                      \<and> BaseModel.is_active t
                                      \<and> Transaction.status t = ''COMPLETED'') db"
    by (simp add: conj_commute conj_left_commute)
  have g: "\<And>Q P. filter Q (filter P db) = filter (\<lambda>t. P t \<and> Q t) db" by simp
  show ?thesis
    unfolding TransactionViewSet_summary_def Let_def f
    by (simp add: json_get_def g or_Decimal_0_Sum_filter[OF assms])
qed

theorem TransactionViewSet_summary_volumes_witness:
  "status_code (TransactionViewSet_summary example_request example_transactions) = 200
   \<and> (\<exists>s. json_get (Response.data (TransactionViewSet_summary example_request example_transactions))
              ''summary'' = Some s
          \<and> json_get s ''total_volume'' = Some (JDec (1503499 / 100 + 5000))
          \<and> json_get s ''buy_volume'' = Some (JDec (1503499 / 100))
          \<and> json_get s ''sell_volume'' = Some (JDec 5000)
          \<and> json_get s ''net_volume'' = Some (JDec (1503499 / 100 - 5000)))"
proof -
  have h: "\<forall>t\<in>set example_transactions. Transaction.total_amount t \<noteq> None"
    by (simp add: example_transactions_def example_transaction_def del: not_None_eq)
  let ?completed = "filter (\<lambda>t. Transaction.user t = User.id' (Request.user example_request)
                                      \<and> BaseModel.is_active t
                                      \<and> Transaction.status t = ''COMPLETED'') example_transactions"
  have c: "?completed = [example_transaction,
      example_transaction\<lparr>id' := 43, Transaction.transaction_type := ''SELL'',
                            Transaction.total_amount := Some 5000\<rparr>]"
    by (simp add: example_transactions_def example_transaction_def example_request_def
          example_user_def)
  have t: "(\<Sum>t\<leftarrow>?completed. the (Transaction.total_amount t)) = 1503499 / 100 + 5000"
    unfolding c by (simp add: example_transaction_def)
  have b: "(\<Sum>t\<leftarrow>filter (\<lambda>t. Transaction.transaction_type t = ''BUY'') ?completed.
              the (Transaction.total_amount t)) = 1503499 / 100"
    unfolding c by (simp add: example_transaction_def)
  have s: "(\<Sum>t\<leftarrow>filter (\<lambda>t. Transaction.transaction_type t = ''SELL'') ?completed.
              the (Transaction.total_amount t)) = 5000"
    unfolding c by (simp add: example_transaction_def)
  from TransactionViewSet_summary_volumes[OF h, of example_request] have r:
    "status_code (TransactionViewSet_summary example_request example_transactions) = 200
   \<and> (\<exists>s. json_get (Response.data (TransactionViewSet_summary example_request example_transactions))
              ''summary'' = Some s
          \<and> json_get s ''total_volume'' = Some (JDec (1503499 / 100 + 5000))
          \<and> json_get s ''buy_volume'' = Some (JDec (1503499 / 100))
          \<and> json_get s ''sell_volume'' = Some (JDec 5000)
          \<and> json_get s ''net_volume'' = Some (JDec (1503499 / 100 - 5000)))"
    unfolding Let_def t b s .
  show ?thesis by (rule r)
qed

section \<open>Asset categories\<close>

lemma find_by_id:
  assumes "find (\<lambda>row. BaseModel.id' row = pk \<and> Q row) db = Some r"
  shows "BaseModel.id' r = pk \<and> r \<in> set db"
  using assms by (auto simp: find_Some_iff)

lemma AssetCategorySerializer_parent_checked:
  assumes "AssetCategorySerializer_errors partial instance db d = []"
      and "AssetCategoryData.parent d = Some (Some pk)"
  shows "list_ex (\<lambda>row. BaseModel.id' row = pk) db
         \<and> (\<forall>i. instance = Some i \<longrightarrow> pk \<noteq> BaseModel.id' i)"
proof -
  from assms have e: "(case find (\<lambda>row. BaseModel.id' row = pk) db of
               None \<Rightarrow> [(''parent'', ''Invalid pk - object does not exist.'')]
             | Some value \<Rightarrow>
                 (case AssetCategorySerializer_validate_parent instance (Some value) of
                    Inl (SerializerValidationError es) \<Rightarrow> es
                  | _ \<Rightarrow> [])) = []"
    by (simp add: AssetCategorySerializer_errors_def)
  then obtain v where v: "find (\<lambda>row. BaseModel.id' row = pk) db = Some v"
    by (cases "find (\<lambda>row. BaseModel.id' row = pk) db") auto
  then have vid: "BaseModel.id' v = pk" "v \<in> set db" by (auto simp: find_Some_iff)
  then have ex: "list_ex (\<lambda>row. BaseModel.id' row = pk) db" by (auto simp: list_ex_iff)
  have "\<forall>i. instance = Some i \<longrightarrow> pk \<noteq> BaseModel.id' i"
    using e v vid(1)
    by (auto simp: AssetCategorySerializer_validate_parent_def split: option.splits)
  with ex show ?thesis by simp
qed

lemma AssetCategoryViewSet_create_keeps_invariant:
  assumes inv: "no_own_parent db"
      and ok: "AssetCategoryViewSet_create fault now new_id d db = Inr (c, db')"
  shows "no_own_parent db'"
proof -
  have errs: "AssetCategorySerializer_errors False None db d = []"
    using ok by (auto simp: AssetCategoryViewSet_create_def split: list.splits)
  let ?self = "\<lparr>id' = new_id, created_at = now, updated_at = now,
             BaseModel.is_active = or_default (AssetCategoryData.is_active d) True,
             AssetCategory.name = or_default (AssetCategoryData.name d) [],
             AssetCategory.description = or_default (AssetCategoryData.description d) [],
             AssetCategory.parent = or_default (AssetCategoryData.parent d) None,
             AssetCategory.icon = or_default (AssetCategoryData.icon d) [],
             AssetCategory.color = or_default (AssetCategoryData.color d) ''#007bff''\<rparr>"
  have sv: "Model_save True fault now ?self db = Inr (c, db')"
    using ok errs by (simp add: AssetCategoryViewSet_create_def)
  then have fresh: "\<not> list_ex (\<lambda>row. BaseModel.id' row = new_id) db"
    and c: "c = ?self\<lparr>created_at := now, updated_at := now\<rparr>" and db': "db' = db @ [c]"
    by (auto simp: Model_save_def Let_def split: option.splits if_splits)
  have "AssetCategory.parent c \<noteq> Some (BaseModel.id' c)"
  proof (cases "AssetCategoryData.parent d")
    case None
    then show ?thesis by (simp add: c or_default_def)
  next
    case (Some v)
    show ?thesis
    proof (cases v)
      case None
      with Some show ?thesis by (simp add: c or_default_def)
    next
      case (Some pk)
      with \<open>AssetCategoryData.parent d = Some v\<close>
      have p: "AssetCategoryData.parent d = Some (Some pk)" by simp
      from AssetCategorySerializer_parent_checked[OF errs p] fresh have "pk \<noteq> new_id" by auto
      then show ?thesis by (simp add: c or_default_def p)
    qed
  qed
  with inv show ?thesis by (simp add: no_own_parent_def db')
qed

lemma AssetCategoryViewSet_update_keeps_invariant:
  assumes inv: "no_own_parent db"
      and ok: "AssetCategoryViewSet_update partial fault now pk d db = Inr (c, db')"
  shows "no_own_parent db'"
proof -
  obtain obj where
    f: "find (\<lambda>row. BaseModel.id' row = pk \<and> BaseModel.is_active row) db = Some obj"
    using ok by (auto simp: AssetCategoryViewSet_update_def split: option.splits)
  have inst: "BaseModel.id' obj = pk" "obj \<in> set db"
    using find_by_id[OF f] by auto
  have errs: "AssetCategorySerializer_errors partial (Some obj) db d = []"
    using ok f by (auto simp: AssetCategoryViewSet_update_def split: list.splits)
  let ?self = "obj\<lparr>
                    BaseModel.is_active :=
                      or_default (AssetCategoryData.is_active d) (BaseModel.is_active obj),
                    AssetCategory.name :=
                      or_default (AssetCategoryData.name d) (AssetCategory.name obj),
                    AssetCategory.description :=
                      or_default (AssetCategoryData.description d) (AssetCategory.description obj),
                    AssetCategory.parent :=
                      or_default (AssetCategoryData.parent d) (AssetCategory.parent obj),
                    AssetCategory.icon :=
                      or_default (AssetCategoryData.icon d) (AssetCategory.icon obj),
                    AssetCategory.color :=
                      or_default (AssetCategoryData.color d) (AssetCategory.color obj)\<rparr>"
  have sv: "Model_save False fault now ?self db = Inr (c, db')"
    using ok f errs by (simp add: AssetCategoryViewSet_update_def)
  have ex: "list_ex (\<lambda>row. BaseModel.id' row = BaseModel.id' ?self) db"
    using inst by (auto simp: list_ex_iff)
  from sv ex have c: "c = ?self\<lparr>updated_at := now\<rparr>"
    and db': "db' = map (\<lambda>row. if BaseModel.id' row = BaseModel.id' ?self then c else row) db"
    by (auto simp: Model_save_def Let_def split: option.splits if_splits)
  have old: "AssetCategory.parent obj \<noteq> Some pk"
    using inv inst by (auto simp: no_own_parent_def list_all_iff)
  have "AssetCategory.parent c \<noteq> Some (BaseModel.id' c)"
  proof (cases "AssetCategoryData.parent d")
    case None
    then show ?thesis using old inst by (simp add: c or_default_def)
  next
    case (Some v)
    show ?thesis
    proof (cases v)
      case None
      with Some show ?thesis by (simp add: c or_default_def)
    next
      case (Some p)
      with \<open>AssetCategoryData.parent d = Some v\<close>
      have p: "AssetCategoryData.parent d = Some (Some p)" by simp
      from AssetCategorySerializer_parent_checked[OF errs p] inst have "p \<noteq> pk" by auto
      then show ?thesis using inst by (simp add: c or_default_def p)
    qed
  qed
  with inv show ?thesis by (auto simp: no_own_parent_def db' list_all_iff)
qed

lemma AssetCategoryViewSet_update_rejects_own_parent:
  assumes "AssetCategoryData.parent d = Some (Some pk)"
  shows "\<exists>e. AssetCategoryViewSet_update partial fault now pk d db = Inl e"
proof (cases "AssetCategoryViewSet_update partial fault now pk d db")
  case (Inl e)
  then show ?thesis by blast
next
  case (Inr r)
  obtain c db' where r: "r = (c, db')" by (cases r)
  obtain obj where
    f: "find (\<lambda>row. BaseModel.id' row = pk \<and> BaseModel.is_active row) db = Some obj"
    using Inr by (auto simp: AssetCategoryViewSet_update_def split: option.splits)
  have errs: "AssetCategorySerializer_errors partial (Some obj) db d = []"
    using Inr f by (auto simp: AssetCategoryViewSet_update_def split: list.splits)
  from AssetCategorySerializer_parent_checked[OF errs assms] find_by_id[OF f] show ?thesis by auto
qed

text \<open>
  Claim C6: validation rejects a category whose parent is the category itself, so no
  stored category is its own parent. \<^verbatim>\<open>AssetCategory.clean\<close> raises its error exactly for
  such a category; \<^verbatim>\<open>validate_parent\<close> rejects the instance itself as parent, so an update
  that names the category as its own parent fails; and the table keeps the invariant
  through every successful create and update of the endpoint.
\<close>

theorem AssetCategory_never_own_parent:
  "(AssetCategory_clean c = Inl (ValidationError ''Category cannot be its own parent'')
      \<longleftrightarrow> AssetCategory.parent c = Some (BaseModel.id' c))
   \<and> (BaseModel.id' v = BaseModel.id' i \<longrightarrow>
        AssetCategorySerializer_validate_parent (Some i) (Some v) =
          Inl (SerializerValidationError [(''parent'', ''Category cannot be its own parent'')]))
   \<and> (AssetCategoryData.parent d = Some (Some pk) \<longrightarrow>
        (\<exists>e. AssetCategoryViewSet_update partial fault now pk d db = Inl e))
   \<and> (no_own_parent db \<and> AssetCategoryViewSet_create fault now new_id d db = Inr (c', db')
        \<longrightarrow> no_own_parent db')
   \<and> (no_own_parent db \<and> AssetCategoryViewSet_update partial fault now pk d db = Inr (c', db')
        \<longrightarrow> no_own_parent db')"
  using AssetCategoryViewSet_update_rejects_own_parent[of d pk partial fault now db]
        AssetCategoryViewSet_create_keeps_invariant[of db fault now new_id d c' db']
        AssetCategoryViewSet_update_keeps_invariant[of db partial fault now pk d c' db']
  by (auto simp: AssetCategory_clean_def AssetCategorySerializer_validate_parent_def)


lemmas category_defs = AssetCategoryViewSet_create_def AssetCategoryViewSet_update_def
  AssetCategorySerializer_errors_def AssetCategorySerializer_validate_parent_def
  max_length_errors_def Model_save_def or_default_def Let_def example_categories_def
  example_category_data_def no_own_parent_def

theorem AssetCategory_never_own_parent_witness:
  "no_own_parent example_categories
   \<and> BaseModel.id' (hd example_categories) = BaseModel.id' (hd example_categories)
   \<and> AssetCategorySerializer_validate_parent (Some (hd example_categories))
         (Some (hd example_categories)) =
       Inl (SerializerValidationError [(''parent'', ''Category cannot be its own parent'')])
   \<and> AssetCategoryData.parent example_category_data = Some (Some 2)
   \<and> (\<exists>e. AssetCategoryViewSet_update True None 1000 2 example_category_data example_categories
            = Inl e)
   \<and> (\<exists>c db'. AssetCategoryViewSet_create None 1000 3 example_category_data example_categories
                 = Inr (c, db') \<and> no_own_parent db')
   \<and> (\<exists>c db'. AssetCategoryViewSet_update True None 1000 2
                   (example_category_data\<lparr>AssetCategoryData.parent := Some (Some 1)\<rparr>)
                   example_categories
                 = Inr (c, db') \<and> no_own_parent db')"
proof -
  have inv: "no_own_parent example_categories"
    by (simp add: no_own_parent_def example_categories_def)
  have p: "AssetCategoryData.parent example_category_data = Some (Some 2)"
    by (simp add: example_category_data_def)
  obtain c1 db1 where
    cr: "AssetCategoryViewSet_create None 1000 3 example_category_data example_categories
           = Inr (c1, db1)"
    by (simp add: category_defs)
  obtain c2 db2 where
    up: "AssetCategoryViewSet_update True None 1000 2
           (example_category_data\<lparr>AssetCategoryData.parent := Some (Some 1)\<rparr>) example_categories
           = Inr (c2, db2)"
    by (simp add: category_defs)
  note a = AssetCategory_never_own_parent[where c = "hd example_categories" and v = "hd example_categories"
              and i = "hd example_categories" and d = example_category_data and pk = 2
              and partial = True and fault = None and now = 1000 and db = example_categories
              and new_id = 3 and c' = c1 and db' = db1]
  note b = AssetCategory_never_own_parent[where c = "hd example_categories" and v = "hd example_categories"
              and i = "hd example_categories"
              and d = "example_category_data\<lparr>AssetCategoryData.parent := Some (Some 1)\<rparr>"
              and pk = 2 and partial = True and fault = None and now = 1000
              and db = example_categories and new_id = 3 and c' = c2 and db' = db2]
  from a inv cr have 1: "no_own_parent db1" by blast
  from b inv up have 2: "no_own_parent db2" by blast
  from a p have 3: "\<exists>e. AssetCategoryViewSet_update True None 1000 2 example_category_data
                          example_categories = Inl e" by blast
  from a have 4: "AssetCategorySerializer_validate_parent (Some (hd example_categories))
         (Some (hd example_categories)) =
       Inl (SerializerValidationError [(''parent'', ''Category cannot be its own parent'')])"
    by blast
  from inv p 1 2 3 4 cr up show ?thesis by blast
qed

section \<open>Exceptions and responses\<close>




section \<open>Analytics graphs\<close>

text \<open>
  Claim C10, as stated: the endpoint returns 400 exactly when the integer \<open>days\<close> is
  outside 1 to 365 or the supplied \<open>graph_type\<close> is not one of the seven known types. It
  fails for the empty graph type: \<^verbatim>\<open>?graph_type=\<close> supplies the empty string, which is none
  of the seven types, and the answer is 200 with all graphs.
\<close>

theorem AnalyticsViewSet_graphs_empty_graph_type_status_200:
  "[] \<notin> set available_graphs
   \<and> status_code (fst (AnalyticsViewSet_graphs example_int example_graph_data 1000
        (example_graphs_request\<lparr>Request.data := \<lparr>days = Some ''7'', graph_type = Some []\<rparr>\<rparr>)
        [] [] [])) = 200"
  by (simp add: AnalyticsViewSet_graphs_def example_int_def example_graphs_request_def
        available_graphs_def Let_def)

text \<open>
  Claim C10, amended: for an integer \<open>days\<close> (absent: 30), the endpoint returns 400 exactly
  when \<open>days\<close> is outside 1 to 365 or a non-empty \<open>graph_type\<close> is supplied that is not one
  of the seven known types; an empty \<open>graph_type\<close> counts as none. For valid parameters it
  returns 200 with the requested graph (all seven when none is requested) followed by the
  summary block.
\<close>

theorem AnalyticsViewSet_graphs_status:
  assumes "(case days (Request.data request) of None \<Rightarrow> Some 30 | Some s \<Rightarrow> int' s) = Some n"
  shows "let response = fst (AnalyticsViewSet_graphs int' g now request users assets transactions);
             unknown = (case graph_type (Request.data request) of
                          Some gt \<Rightarrow> gt \<noteq> [] \<and> gt \<notin> set available_graphs
                        | None \<Rightarrow> False)
         in (status_code response = 400 \<longleftrightarrow> n < 1 \<or> n > 365 \<or> unknown)
          \<and> (\<not> (n < 1 \<or> n > 365 \<or> unknown) \<longrightarrow>
               status_code response = 200
               \<and> json_keys (Response.data response) =
                   (case graph_type (Request.data request) of
                      Some (c # cs) \<Rightarrow> [c # cs]
                    | _ \<Rightarrow> available_graphs) @ [''summary''])"
proof (cases "graph_type (Request.data request)")
  case None
  with assms show ?thesis
    by (simp add: AnalyticsViewSet_graphs_def Let_def json_keys_def available_graphs_def)
next
  case (Some gt)
  show ?thesis
  proof (cases gt)
    case Nil
    with Some assms show ?thesis
      by (simp add: AnalyticsViewSet_graphs_def Let_def json_keys_def available_graphs_def)
  next
    case (Cons c cs)
    with Some assms show ?thesis
      by (simp add: AnalyticsViewSet_graphs_def Let_def json_keys_def available_graphs_def)
  qed
qed


theorem AnalyticsViewSet_graphs_status_witness:
  "(case days (Request.data example_graphs_request) of None \<Rightarrow> Some 30 | Some s \<Rightarrow> example_int s)
     = Some 7
   \<and> status_code (fst (AnalyticsViewSet_graphs example_int example_graph_data 1000
        example_graphs_request [] [] [])) = 200
   \<and> json_keys (Response.data (fst (AnalyticsViewSet_graphs example_int example_graph_data 1000
        example_graphs_request [] [] []))) = [''top_assets'', ''summary'']"
proof -
  have h: "(case days (Request.data example_graphs_request) of
              None \<Rightarrow> Some 30 | Some s \<Rightarrow> example_int s) = Some 7"
    by (simp add: example_graphs_request_def example_int_def)
  have g: "graph_type (Request.data example_graphs_request) = Some ''top_assets''"
    by (simp add: example_graphs_request_def)
  from AnalyticsViewSet_graphs_status[OF h, of example_graph_data 1000 "[]" "[]" "[]"] h show ?thesis
    by (simp add: Let_def g available_graphs_def)
qed

end
